theory Spec2Isabelle
  imports Main
begin

section \<open>The coffee machine: domain layer, transport error handlers, persistence\<close>

text \<open>
  A shallow embedding of \<^verbatim>\<open>backend/app/machine.py\<close>, \<^verbatim>\<open>errors.py\<close>,
  \<^verbatim>\<open>storage.py\<close>, \<^verbatim>\<open>service.py\<close> and the two exception handlers of
  \<^verbatim>\<open>main.py\<close>. Python's unbounded integers are \<open>int\<close>. A method that mutates
  its object takes the object and returns it updated, next to what the call returned or
  raised: an exception is \<open>Inl\<close>, and the object that comes with it is the object as the
  exception leaves it, since Python undoes nothing when an exception propagates.
\<close>

subsection \<open>Text helpers of the Python runtime\<close>

text \<open>
  \<^verbatim>\<open>str(n)\<close> of an integer, as the f-strings of the source use it: decimal digits,
  a leading minus sign for a negative number.
\<close>

definition digit_char :: "nat \<Rightarrow> char" where
  "digit_char d = ''0123456789'' ! d"

function str_nat :: "nat \<Rightarrow> string" where
  "str_nat n = (if n < 10 then [digit_char n] else str_nat (n div 10) @ [digit_char (n mod 10)])"
  by pat_completeness auto
termination
  by (relation "measure id") auto

declare str_nat.simps [simp del]

definition str_int :: "int \<Rightarrow> string" where
  "str_int i = (if i < 0 then CHR ''-'' # str_nat (nat (- i)) else str_nat (nat i))"

text \<open>
  \<^verbatim>\<open>s.replace("_", " ")\<close> and \<^verbatim>\<open>s.title()\<close> on ASCII text. \<open>title\<close> walks
  the string once: a character that follows a letter is lowercased, any other character is
  uppercased. The only strings that reach \<^verbatim>\<open>_friendly_name\<close> are keys of the recipe
  table, which are ASCII.
\<close>

definition replace_char :: "char \<Rightarrow> char \<Rightarrow> string \<Rightarrow> string" where
  "replace_char old new s = map (\<lambda>c. if c = old then new else c) s"

definition lower_letters :: string where
  "lower_letters = ''abcdefghijklmnopqrstuvwxyz''"

definition upper_letters :: string where
  "upper_letters = ''ABCDEFGHIJKLMNOPQRSTUVWXYZ''"

definition is_cased :: "char \<Rightarrow> bool" where
  "is_cased c = (c \<in> set lower_letters \<or> c \<in> set upper_letters)"

definition to_upper :: "char \<Rightarrow> char" where
  "to_upper c = (case map_of (zip lower_letters upper_letters) c of Some u \<Rightarrow> u | None \<Rightarrow> c)"

definition to_lower :: "char \<Rightarrow> char" where
  "to_lower c = (case map_of (zip upper_letters lower_letters) c of Some l \<Rightarrow> l | None \<Rightarrow> c)"

fun title_from :: "bool \<Rightarrow> string \<Rightarrow> string" where
  "title_from previous_is_cased [] = []"
| "title_from previous_is_cased (c # cs) =
     (if previous_is_cased then to_lower c else to_upper c) # title_from (is_cased c) cs"

definition title :: "string \<Rightarrow> string" where
  "title s = title_from False s"

subsection \<open>errors.py\<close>

text \<open>
  The three dataclasses under \<^verbatim>\<open>CoffeeMachineError\<close>, and the built-in exceptions
  the modelled code raises: \<^verbatim>\<open>ValueError(message)\<close> from \<^verbatim>\<open>brew\<close>,
  \<^verbatim>\<open>KeyError(key)\<close> and \<^verbatim>\<open>TypeError\<close> from subscripting in
  \<^verbatim>\<open>from_dict\<close>, \<^verbatim>\<open>json.JSONDecodeError\<close> from the JSON reader and
  \<^verbatim>\<open>sqlite3.OperationalError\<close> from a query. \<open>Ill_typed\<close> is no Python
  exception: a dataclass checks no annotation, so \<^verbatim>\<open>from_dict\<close> on a dictionary
  whose value has another type than the field builds an object the typed records of this
  model cannot hold; the model stops there and names the field.
\<close>

datatype error =
    ContainerEmptyError string int int
  | ContainerOverflowError string int int
  | InvalidFillAmountError string int
  | ValueError string
  | KeyError string
  | TypeError
  | JSONDecodeError string
  | OperationalError string
  | Ill_typed string

text \<open>\<^verbatim>\<open>isinstance(exc, CoffeeMachineError)\<close>.\<close>

fun is_CoffeeMachineError :: "error \<Rightarrow> bool" where
  "is_CoffeeMachineError (ContainerEmptyError _ _ _) = True"
| "is_CoffeeMachineError (ContainerOverflowError _ _ _) = True"
| "is_CoffeeMachineError (InvalidFillAmountError _ _) = True"
| "is_CoffeeMachineError _ = False"

text \<open>
  \<^verbatim>\<open>str(exc)\<close>: the \<^verbatim>\<open>__str__\<close> of each dataclass; for a built-in exception
  made from one message, the message; for \<^verbatim>\<open>KeyError\<close>, the quoted key.
\<close>

fun str_error :: "error \<Rightarrow> string" where
  "str_error (ContainerEmptyError container_name required_amount available_amount) =
     ''Cannot make coffee because the '' @ container_name @ '' container only has ''
     @ str_int available_amount @ '' available but '' @ str_int required_amount
     @ '' is required.''"
| "str_error (ContainerOverflowError container_name attempted_amount free_capacity) =
     ''Adding '' @ str_int attempted_amount @ '' to the '' @ container_name
     @ '' container would overflow it. It has room for only '' @ str_int free_capacity
     @ '' more.''"
| "str_error (InvalidFillAmountError container_name attempted_amount) =
     ''The amount ('' @ str_int attempted_amount @ '') to add to the '' @ container_name
     @ '' container must be a positive number.''"
| "str_error (ValueError msg) = msg"
| "str_error (KeyError k) = [CHR 0x27] @ k @ [CHR 0x27]"
| "str_error TypeError = ''''"
| "str_error (JSONDecodeError msg) = msg"
| "str_error (OperationalError msg) = msg"
| "str_error (Ill_typed field) = field"

subsection \<open>machine.py: the recipe table and Container\<close>

record recipe =
  water_ml :: int
  coffee_g :: int

definition RECIPES :: "string \<rightharpoonup> recipe" where
  "RECIPES = map_of
     [(''espresso'', \<lparr>water_ml = 24, coffee_g = 8\<rparr>),
      (''double_espresso'', \<lparr>water_ml = 48, coffee_g = 16\<rparr>),
      (''americano'', \<lparr>water_ml = 148, coffee_g = 16\<rparr>),
      (''ristretto'', \<lparr>water_ml = 16, coffee_g = 8\<rparr>)]"

record container =
  name :: string
  capacity :: int
  level :: int
  unit :: string

definition use :: "container \<Rightarrow> int \<Rightarrow> (error + unit) \<times> container" where
  "use self amount =
     (if level self < amount
      then (Inl (ContainerEmptyError (name self) amount (level self)), self)
      else (Inr (), self\<lparr>level := level self - amount\<rparr>))"

definition fill :: "container \<Rightarrow> int \<Rightarrow> (error + unit) \<times> container" where
  "fill self amount =
     (if amount \<le> 0 then (Inl (InvalidFillAmountError (name self) amount), self)
      else let free_space = capacity self - level self in
        if free_space < amount
        then (Inl (ContainerOverflowError (name self) amount free_space), self)
        else (Inr (), self\<lparr>level := level self + amount\<rparr>))"

subsection \<open>machine.py: CoffeeMachine\<close>

text \<open>
  The two containers are fields of the record: the machines the code builds
  (\<^verbatim>\<open>default_machine\<close>, \<^verbatim>\<open>from_dict\<close>) never share one container object
  between the two fields.
\<close>

record coffee_machine =
  water_container :: container
  coffee_container :: container
  last_message :: "string option"

definition friendly_name :: "string \<Rightarrow> string" where
  "friendly_name recipe_key = title (replace_char (CHR ''_'') (CHR '' '') recipe_key)"

text \<open>
  \<^verbatim>\<open>brew\<close> calls \<^verbatim>\<open>water_container.use\<close>, then
  \<^verbatim>\<open>coffee_container.use\<close>; each call commits its own subtraction before the next
  statement runs, so an exception of the second call finds the water already used.
\<close>

definition brew :: "coffee_machine \<Rightarrow> string \<Rightarrow> (error + recipe) \<times> coffee_machine" where
  "brew self recipe_key =
     (case RECIPES recipe_key of
        None \<Rightarrow>
          (Inl (ValueError (''Unknown recipe '' @ [CHR 0x27] @ recipe_key @ [CHR 0x27])), self)
      | Some recipe \<Rightarrow>
          (case use (water_container self) (water_ml recipe) of
             (Inl e, w) \<Rightarrow> (Inl e, self\<lparr>water_container := w\<rparr>)
           | (Inr _, w) \<Rightarrow>
               (case use (coffee_container self) (coffee_g recipe) of
                  (Inl e, c) \<Rightarrow> (Inl e, self\<lparr>water_container := w, coffee_container := c\<rparr>)
                | (Inr _, c) \<Rightarrow>
                    (Inr recipe,
                     self\<lparr>water_container := w, coffee_container := c,
                          last_message := Some (friendly_name recipe_key @ '' is ready!'')\<rparr>))))"

definition fill_water :: "coffee_machine \<Rightarrow> int \<Rightarrow> (error + unit) \<times> coffee_machine" where
  "fill_water self amount_ml =
     (case fill (water_container self) amount_ml of
        (Inl e, w) \<Rightarrow> (Inl e, self\<lparr>water_container := w\<rparr>)
      | (Inr _, w) \<Rightarrow>
          (Inr (),
           self\<lparr>water_container := w,
                last_message := Some (''Added '' @ str_int amount_ml @ '' ml of water.'')\<rparr>))"

definition fill_coffee :: "coffee_machine \<Rightarrow> int \<Rightarrow> (error + unit) \<times> coffee_machine" where
  "fill_coffee self amount_g =
     (case fill (coffee_container self) amount_g of
        (Inl e, c) \<Rightarrow> (Inl e, self\<lparr>coffee_container := c\<rparr>)
      | (Inr _, c) \<Rightarrow>
          (Inr (),
           self\<lparr>coffee_container := c,
                last_message := Some (''Added '' @ str_int amount_g @ '' g of coffee.'')\<rparr>))"

definition default_machine :: "int \<Rightarrow> int \<Rightarrow> coffee_machine" where
  "default_machine water_capacity coffee_capacity =
     \<lparr>water_container =
        \<lparr>name = ''water'', capacity = water_capacity, level = water_capacity, unit = ''ml''\<rparr>,
      coffee_container =
        \<lparr>name = ''coffee'', capacity = coffee_capacity, level = coffee_capacity, unit = ''g''\<rparr>,
      last_message = None\<rparr>"


subsection \<open>machine.py: dictionaries of the machine\<close>

text \<open>
  The values that \<^verbatim>\<open>to_dict\<close>, \<^verbatim>\<open>status\<close> and the JSON reader exchange:
  \<^verbatim>\<open>None\<close>, booleans, integers, strings, lists, and dictionaries with string keys,
  held as association lists in insertion order and read with \<open>map_of\<close>.
\<close>

datatype pyval =
    PNone
  | PBool bool
  | PInt int
  | PStr string
  | PList "pyval list"
  | PDict "(string \<times> pyval) list"

text \<open>\<^verbatim>\<open>data[key]\<close> with a string key.\<close>

fun subscript :: "pyval \<Rightarrow> string \<Rightarrow> error + pyval" where
  "subscript (PDict items) key =
     (case map_of items key of None \<Rightarrow> Inl (KeyError key) | Some v \<Rightarrow> Inr v)"
| "subscript _ key = Inl TypeError"

definition container_to_dict :: "container \<Rightarrow> pyval" where
  "container_to_dict self =
     PDict [(''capacity'', PInt (capacity self)),
            (''level'', PInt (level self)),
            (''unit'', PStr (unit self)),
            (''name'', PStr (name self))]"

fun as_str :: "string \<Rightarrow> pyval \<Rightarrow> error + string" where
  "as_str field (PStr s) = Inr s"
| "as_str field _ = Inl (Ill_typed field)"

fun as_int :: "string \<Rightarrow> pyval \<Rightarrow> error + int" where
  "as_int field (PInt i) = Inr i"
| "as_int field _ = Inl (Ill_typed field)"

text \<open>The keyword arguments are evaluated in the order written: name, capacity, level, unit.\<close>

definition container_from_dict :: "pyval \<Rightarrow> error + container" where
  "container_from_dict data =
     (case subscript data ''name'' of Inl e \<Rightarrow> Inl e | Inr n \<Rightarrow>
      case subscript data ''capacity'' of Inl e \<Rightarrow> Inl e | Inr c \<Rightarrow>
      case subscript data ''level'' of Inl e \<Rightarrow> Inl e | Inr l \<Rightarrow>
      case subscript data ''unit'' of Inl e \<Rightarrow> Inl e | Inr u \<Rightarrow>
      case as_str ''name'' n of Inl e \<Rightarrow> Inl e | Inr n' \<Rightarrow>
      case as_int ''capacity'' c of Inl e \<Rightarrow> Inl e | Inr c' \<Rightarrow>
      case as_int ''level'' l of Inl e \<Rightarrow> Inl e | Inr l' \<Rightarrow>
      case as_str ''unit'' u of Inl e \<Rightarrow> Inl e | Inr u' \<Rightarrow>
        Inr \<lparr>name = n', capacity = c', level = l', unit = u'\<rparr>)"

fun of_optional_str :: "string option \<Rightarrow> pyval" where
  "of_optional_str None = PNone"
| "of_optional_str (Some s) = PStr s"

definition to_dict :: "coffee_machine \<Rightarrow> pyval" where
  "to_dict self =
     PDict [(''water'', container_to_dict (water_container self)),
            (''coffee'', container_to_dict (coffee_container self)),
            (''last_message'', of_optional_str (last_message self))]"

text \<open>\<^verbatim>\<open>status\<close> builds the same dictionary and assigns nothing.\<close>

definition status :: "coffee_machine \<Rightarrow> pyval \<times> coffee_machine" where
  "status self =
     (PDict [(''water'', container_to_dict (water_container self)),
             (''coffee'', container_to_dict (coffee_container self)),
             (''last_message'', of_optional_str (last_message self))],
      self)"

text \<open>\<^verbatim>\<open>data.get("last_message")\<close>: \<^verbatim>\<open>None\<close> when the key is absent.\<close>

fun get_last_message :: "pyval \<Rightarrow> error + string option" where
  "get_last_message (PDict items) =
     (case map_of items ''last_message'' of
        None \<Rightarrow> Inr None
      | Some PNone \<Rightarrow> Inr None
      | Some (PStr s) \<Rightarrow> Inr (Some s)
      | Some _ \<Rightarrow> Inl (Ill_typed ''last_message''))"
| "get_last_message _ = Inl TypeError"

definition from_dict :: "pyval \<Rightarrow> error + coffee_machine" where
  "from_dict data =
     (case subscript data ''water'' of Inl e \<Rightarrow> Inl e | Inr wd \<Rightarrow>
      case container_from_dict wd of Inl e \<Rightarrow> Inl e | Inr w \<Rightarrow>
      case subscript data ''coffee'' of Inl e \<Rightarrow> Inl e | Inr cd \<Rightarrow>
      case container_from_dict cd of Inl e \<Rightarrow> Inl e | Inr c \<Rightarrow>
      case get_last_message data of Inl e \<Rightarrow> Inl e | Inr msg \<Rightarrow>
        Inr \<lparr>water_container = w, coffee_container = c, last_message = msg\<rparr>)"

subsection \<open>Sequences of calls on one machine\<close>

text \<open>
  A caller that keeps a machine and calls its four operations one after the other,
  catching whatever a call raises: the machine after a call is the machine the call
  left, whether it returned or raised.
\<close>

datatype call = Brew string | Fill_water int | Fill_coffee int | Status

fun exec :: "coffee_machine \<Rightarrow> call \<Rightarrow> coffee_machine" where
  "exec m (Brew recipe_key) = snd (brew m recipe_key)"
| "exec m (Fill_water amount_ml) = snd (fill_water m amount_ml)"
| "exec m (Fill_coffee amount_g) = snd (fill_coffee m amount_g)"
| "exec m Status = snd (status m)"

fun run :: "coffee_machine \<Rightarrow> call list \<Rightarrow> coffee_machine" where
  "run m [] = m"
| "run m (c # cs) = run (exec m c) cs"

definition container_ok :: "container \<Rightarrow> bool" where
  "container_ok c = (0 \<le> level c \<and> level c \<le> capacity c)"

definition machine_ok :: "coffee_machine \<Rightarrow> bool" where
  "machine_ok m = (container_ok (water_container m) \<and> container_ok (coffee_container m))"

subsection \<open>main.py: the exception handlers\<close>

record response =
  status_code :: nat
  content :: "(string \<times> string) list"

definition handle_machine_error :: "error \<Rightarrow> response" where
  "handle_machine_error exc = \<lparr>status_code = 400, content = [(''message'', str_error exc)]\<rparr>"

definition handle_unexpected_error :: "error \<Rightarrow> response" where
  "handle_unexpected_error exc =
     \<lparr>status_code = 500,
      content = [(''message'', ''Unexpected error occurred''), (''details'', str_error exc)]\<rparr>"

text \<open>
  The framework picks the handler registered for the nearest class of the exception:
  \<^verbatim>\<open>handle_machine_error\<close> for a \<^verbatim>\<open>CoffeeMachineError\<close>,
  \<^verbatim>\<open>handle_unexpected_error\<close> (registered for \<^verbatim>\<open>Exception\<close>) for anything else.
\<close>

definition render_exception :: "error \<Rightarrow> response" where
  "render_exception exc =
     (if is_CoffeeMachineError exc then handle_machine_error exc
      else handle_unexpected_error exc)"

text \<open>The four brewing routes, each with the recipe key its function passes on.\<close>

datatype coffee_route = Espresso | Double_espresso | Americano | Ristretto

fun route_recipe :: "coffee_route \<Rightarrow> string" where
  "route_recipe Espresso = ''espresso''"
| "route_recipe Double_espresso = ''double_espresso''"
| "route_recipe Americano = ''americano''"
| "route_recipe Ristretto = ''ristretto''"

subsection \<open>storage.py\<close>

text \<open>
  \<^verbatim>\<open>json.dumps\<close> and \<^verbatim>\<open>json.loads\<close> belong to Python's standard library,
  not to this repository, and are modelled by their contract: a text is either the JSON
  text of a value, which the reader turns back into that value (the values of \<open>pyval\<close>
  are the ones JSON carries without change), or a text the reader rejects with a
  \<^verbatim>\<open>JSONDecodeError\<close>, kept with the reader's message. Files that are not UTF-8 and
  input/output failures of the operating system are outside the model.
\<close>

datatype json_text = Json_text pyval | Malformed_text string

definition json_dumps :: "pyval \<Rightarrow> json_text" where
  "json_dumps data = Json_text data"

fun json_loads :: "json_text \<Rightarrow> error + pyval" where
  "json_loads (Json_text data) = Inr data"
| "json_loads (Malformed_text msg) = Inl (JSONDecodeError msg)"

text \<open>
  A path as \<^verbatim>\<open>pathlib\<close> reads it: the parent directory and the final component,
  split into stem and suffix; \<^verbatim>\<open>with_suffix\<close> replaces the suffix.
\<close>

record path =
  parent :: string
  stem :: string
  suffix :: string

definition with_suffix :: "path \<Rightarrow> string \<Rightarrow> path" where
  "with_suffix p s = p\<lparr>suffix := s\<rparr>"

text \<open>
  What outlives a storage object: the text files, and the SQLite databases. A database
  that exists has the table \<^verbatim>\<open>machine_state\<close>, whose only possible row (the
  \<^verbatim>\<open>CHECK (id = 1)\<close>) holds a payload or is absent. The two kinds of file are kept
  apart: no path is used with both backends. Directories are not modelled; each
  constructor creates the parent directory of its path before anything is written.
\<close>

record world =
  files :: "path \<rightharpoonup> json_text"
  databases :: "path \<rightharpoonup> json_text option"

text \<open>
  The three storage classes. The in-memory one holds its state in the object itself;
  the other two hold only their path.
\<close>

datatype storage =
    JSONStateStorage path
  | MemoryStateStorage "pyval option"
  | SQLiteStateStorage path

definition new_JSONStateStorage :: "path \<Rightarrow> world \<Rightarrow> storage \<times> world" where
  "new_JSONStateStorage p w = (JSONStateStorage p, w)"

definition new_MemoryStateStorage :: storage where
  "new_MemoryStateStorage = MemoryStateStorage None"

text \<open>\<^verbatim>\<open>CREATE TABLE IF NOT EXISTS\<close>: an existing table keeps its row.\<close>

definition init_db :: "path \<Rightarrow> world \<Rightarrow> world" where
  "init_db p w =
     (case databases w p of
        None \<Rightarrow> w\<lparr>databases := (databases w)(p \<mapsto> None)\<rparr>
      | Some row \<Rightarrow> w)"

definition new_SQLiteStateStorage :: "path \<Rightarrow> world \<Rightarrow> storage \<times> world" where
  "new_SQLiteStateStorage p w = (SQLiteStateStorage p, init_db p w)"

fun load :: "storage \<Rightarrow> world \<Rightarrow> error + pyval option" where
  "load (JSONStateStorage p) w =
     (case files w p of
        None \<Rightarrow> Inr None
      | Some handle \<Rightarrow>
          (case json_loads handle of Inl e \<Rightarrow> Inl e | Inr data \<Rightarrow> Inr (Some data)))"
| "load (MemoryStateStorage state) w = Inr state"
| "load (SQLiteStateStorage p) w =
     (case databases w p of
        None \<Rightarrow> Inl (OperationalError ''no such table: machine_state'')
      | Some None \<Rightarrow> Inr None
      | Some (Some payload) \<Rightarrow>
          (case json_loads payload of Inl e \<Rightarrow> Inl e | Inr data \<Rightarrow> Inr (Some data)))"

text \<open>
  \<^verbatim>\<open>save\<close> of the JSON class writes the temporary sibling, then renames it over the
  target: after the rename the temporary name is gone and the target holds the new text
  (when the path already ends in \<^verbatim>\<open>.tmp\<close> the two names are one file).
\<close>

fun save :: "storage \<Rightarrow> pyval \<Rightarrow> world \<Rightarrow> (error + unit) \<times> storage \<times> world" where
  "save (JSONStateStorage p) data w =
     (let tmp_path = with_suffix p ''.tmp'';
          written = (files w)(tmp_path \<mapsto> json_dumps data);
          replaced = (written(tmp_path := None))(p := written tmp_path)
      in (Inr (), JSONStateStorage p, w\<lparr>files := replaced\<rparr>))"
| "save (MemoryStateStorage state) data w =
     (case json_loads (json_dumps data) of
        Inl e \<Rightarrow> (Inl e, MemoryStateStorage state, w)
      | Inr copy \<Rightarrow> (Inr (), MemoryStateStorage (Some copy), w))"
| "save (SQLiteStateStorage p) data w =
     (let serialized = json_dumps data in
      case databases w p of
        None \<Rightarrow>
          (Inl (OperationalError ''no such table: machine_state''), SQLiteStateStorage p, w)
      | Some row \<Rightarrow>
          (Inr (), SQLiteStateStorage p,
           w\<lparr>databases := (databases w)(p \<mapsto> Some serialized)\<rparr>))"

definition build_storage :: "string \<Rightarrow> path \<Rightarrow> world \<Rightarrow> (error + storage) \<times> world" where
  "build_storage backend p w =
     (let backend = map to_lower backend in
      if backend = ''json'' then (case new_JSONStateStorage p w of (s, w') \<Rightarrow> (Inr s, w'))
      else if backend = ''sqlite'' then (case new_SQLiteStateStorage p w of (s, w') \<Rightarrow> (Inr s, w'))
      else if backend = ''memory'' then (Inr new_MemoryStateStorage, w)
      else (Inl (ValueError (''Unsupported storage backend '' @ [CHR 0x27] @ backend @ [CHR 0x27])), w))"

text \<open>
  The round trip of the storage tests: build a storage, save, build a storage again
  from the same backend name and path, load. The second definition loads from the
  storage object that saved.
\<close>

definition save_then_fresh_load :: "string \<Rightarrow> path \<Rightarrow> pyval \<Rightarrow> world \<Rightarrow> error + pyval option" where
  "save_then_fresh_load backend p data w =
     (case build_storage backend p w of
        (Inl e, w1) \<Rightarrow> Inl e
      | (Inr s1, w1) \<Rightarrow>
          (case save s1 data w1 of
             (Inl e, s1', w2) \<Rightarrow> Inl e
           | (Inr u, s1', w2) \<Rightarrow>
               (case build_storage backend p w2 of
                  (Inl e, w3) \<Rightarrow> Inl e
                | (Inr s2, w3) \<Rightarrow> load s2 w3)))"

definition save_then_same_load :: "string \<Rightarrow> path \<Rightarrow> pyval \<Rightarrow> world \<Rightarrow> error + pyval option" where
  "save_then_same_load backend p data w =
     (case build_storage backend p w of
        (Inl e, w1) \<Rightarrow> Inl e
      | (Inr s1, w1) \<Rightarrow>
          (case save s1 data w1 of
             (Inl e, s1', w2) \<Rightarrow> Inl e
           | (Inr u, s1', w2) \<Rightarrow> load s1' w2))"

subsection \<open>service.py\<close>

record settings =
  water_capacity_ml :: int
  coffee_capacity_g :: int
  storage_path :: path
  storage_backend :: string

text \<open>
  The service object: its storage, its settings and its machine. The lock admits one
  call at a time, so the calls are modelled one after the other.
\<close>

record service =
  svc_storage :: storage
  svc_settings :: settings
  svc_machine :: coffee_machine

text \<open>Python's truth value of a loaded state, as \<^verbatim>\<open>if state:\<close> tests it.\<close>

fun truthy :: "pyval \<Rightarrow> bool" where
  "truthy PNone = False"
| "truthy (PBool b) = b"
| "truthy (PInt i) = (i \<noteq> 0)"
| "truthy (PStr s) = (s \<noteq> [])"
| "truthy (PList xs) = (xs \<noteq> [])"
| "truthy (PDict items) = (items \<noteq> [])"

definition load_machine :: "storage \<Rightarrow> settings \<Rightarrow> world \<Rightarrow> error + coffee_machine" where
  "load_machine st cfg w =
     (case load st w of
        Inl e \<Rightarrow> Inl e
      | Inr None \<Rightarrow> Inr (default_machine (water_capacity_ml cfg) (coffee_capacity_g cfg))
      | Inr (Some state) \<Rightarrow>
          if truthy state then from_dict state
          else Inr (default_machine (water_capacity_ml cfg) (coffee_capacity_g cfg)))"

definition new_service :: "storage \<Rightarrow> settings \<Rightarrow> world \<Rightarrow> error + service" where
  "new_service st cfg w =
     (case load_machine st cfg w of
        Inl e \<Rightarrow> Inl e
      | Inr m \<Rightarrow> Inr \<lparr>svc_storage = st, svc_settings = cfg, svc_machine = m\<rparr>)"

definition recipe_dict :: "recipe \<Rightarrow> pyval" where
  "recipe_dict r = PDict [(''water_ml'', PInt (water_ml r)), (''coffee_g'', PInt (coffee_g r))]"

text \<open>
  Each mutating call runs the machine, then persists, then builds its reply. An
  exception of the machine leaves the call before \<^verbatim>\<open>_persist\<close>; an exception of
  \<^verbatim>\<open>save\<close> leaves it with the machine already changed.
\<close>

definition persist :: "service \<Rightarrow> world \<Rightarrow> (error + unit) \<times> service \<times> world" where
  "persist svc w =
     (case save (svc_storage svc) (to_dict (svc_machine svc)) w of
        (r, st, w') \<Rightarrow> (r, svc\<lparr>svc_storage := st\<rparr>, w'))"

definition service_brew :: "service \<Rightarrow> string \<Rightarrow> world \<Rightarrow> (error + pyval) \<times> service \<times> world" where
  "service_brew svc recipe_key w =
     (case brew (svc_machine svc) recipe_key of
        (Inl e, m) \<Rightarrow> (Inl e, svc\<lparr>svc_machine := m\<rparr>, w)
      | (Inr usage, m) \<Rightarrow>
          (case persist (svc\<lparr>svc_machine := m\<rparr>) w of
             (Inl e, svc', w') \<Rightarrow> (Inl e, svc', w')
           | (Inr u, svc', w') \<Rightarrow>
               (Inr (PDict [(''message'', of_optional_str (last_message (svc_machine svc'))),
                            (''drink'', PStr recipe_key),
                            (''used'', recipe_dict usage),
                            (''status'', fst (status (svc_machine svc')))]),
                svc', w')))"

definition service_fill_water :: "service \<Rightarrow> int \<Rightarrow> world \<Rightarrow> (error + pyval) \<times> service \<times> world" where
  "service_fill_water svc amount_ml w =
     (case fill_water (svc_machine svc) amount_ml of
        (Inl e, m) \<Rightarrow> (Inl e, svc\<lparr>svc_machine := m\<rparr>, w)
      | (Inr u, m) \<Rightarrow>
          (case persist (svc\<lparr>svc_machine := m\<rparr>) w of
             (Inl e, svc', w') \<Rightarrow> (Inl e, svc', w')
           | (Inr u', svc', w') \<Rightarrow>
               (Inr (PDict [(''message'', of_optional_str (last_message (svc_machine svc'))),
                            (''status'', fst (status (svc_machine svc')))]),
                svc', w')))"

definition service_fill_coffee :: "service \<Rightarrow> int \<Rightarrow> world \<Rightarrow> (error + pyval) \<times> service \<times> world" where
  "service_fill_coffee svc amount_g w =
     (case fill_coffee (svc_machine svc) amount_g of
        (Inl e, m) \<Rightarrow> (Inl e, svc\<lparr>svc_machine := m\<rparr>, w)
      | (Inr u, m) \<Rightarrow>
          (case persist (svc\<lparr>svc_machine := m\<rparr>) w of
             (Inl e, svc', w') \<Rightarrow> (Inl e, svc', w')
           | (Inr u', svc', w') \<Rightarrow>
               (Inr (PDict [(''message'', of_optional_str (last_message (svc_machine svc'))),
                            (''status'', fst (status (svc_machine svc')))]),
                svc', w')))"

definition service_status :: "service \<Rightarrow> world \<Rightarrow> (error + pyval) \<times> service \<times> world" where
  "service_status svc w = (Inr (fst (status (svc_machine svc))), svc, w)"

text \<open>The fields of a machine that no operation assigns.\<close>

definition frame :: "coffee_machine \<Rightarrow> (string \<times> int \<times> string) \<times> (string \<times> int \<times> string)" where
  "frame m =
     ((name (water_container m), capacity (water_container m), unit (water_container m)),
      (name (coffee_container m), capacity (coffee_container m), unit (coffee_container m)))"

section \<open>Properties\<close>

subsection \<open>Container\<close>

text \<open>
  C6. For every container and every amount above the level, \<open>use\<close> raises
  \<open>ContainerEmptyError\<close> with the container's name, the requested amount and the level
  before the call, and the container is as it was. For an amount up to the level, it
  returns and the level has gone down by exactly the amount.
\<close>

theorem use_spec:
  "(level c < amount \<longrightarrow>
      use c amount = (Inl (ContainerEmptyError (name c) amount (level c)), c))
   \<and> (amount \<le> level c \<longrightarrow>
      use c amount = (Inr (), c\<lparr>level := level c - amount\<rparr>)
      \<and> level (snd (use c amount)) = level c - amount)"
  by (simp add: use_def)

theorem use_spec_witness:
  "use \<lparr>name = ''water'', capacity = 200, level = 10, unit = ''ml''\<rparr> 24
     = (Inl (ContainerEmptyError ''water'' 24 10),
        \<lparr>name = ''water'', capacity = 200, level = 10, unit = ''ml''\<rparr>)
   \<and> use \<lparr>name = ''water'', capacity = 200, level = 10, unit = ''ml''\<rparr> 10
     = (Inr (), \<lparr>name = ''water'', capacity = 200, level = 0, unit = ''ml''\<rparr>)"
  using use_spec [where c = "\<lparr>name = ''water'', capacity = 200, level = 10, unit = ''ml''\<rparr>" and amount = 24]
        use_spec [where c = "\<lparr>name = ''water'', capacity = 200, level = 10, unit = ''ml''\<rparr>" and amount = 10]
  by simp

text \<open>
  C5. For every container, \<open>fill\<close> raises \<open>InvalidFillAmountError\<close> for an amount
  that is zero or negative; it raises \<open>ContainerOverflowError\<close>, carrying the amount and
  the free capacity \<open>capacity - level\<close>, for an amount above the free capacity (the
  positivity check comes first in the code, and decides alone when the level is above the
  capacity and the amount is not positive); in both cases the container is as it was.
  Otherwise the level goes up by exactly the amount.
\<close>

theorem fill_spec:
  "(amount \<le> 0 \<longrightarrow> fill c amount = (Inl (InvalidFillAmountError (name c) amount), c))
   \<and> (capacity c - level c < amount \<and> (0 < amount \<or> level c \<le> capacity c) \<longrightarrow>
        fill c amount
          = (Inl (ContainerOverflowError (name c) amount (capacity c - level c)), c))
   \<and> (0 < amount \<and> amount \<le> capacity c - level c \<longrightarrow>
        fill c amount = (Inr (), c\<lparr>level := level c + amount\<rparr>)
        \<and> level (snd (fill c amount)) = level c + amount)"
  by (auto simp add: fill_def Let_def)

theorem fill_spec_witness:
  "fill \<lparr>name = ''coffee'', capacity = 100, level = 100, unit = ''g''\<rparr> 0
     = (Inl (InvalidFillAmountError ''coffee'' 0),
        \<lparr>name = ''coffee'', capacity = 100, level = 100, unit = ''g''\<rparr>)
   \<and> fill \<lparr>name = ''water'', capacity = 200, level = 190, unit = ''ml''\<rparr> 20
     = (Inl (ContainerOverflowError ''water'' 20 10),
        \<lparr>name = ''water'', capacity = 200, level = 190, unit = ''ml''\<rparr>)
   \<and> fill \<lparr>name = ''water'', capacity = 200, level = 190, unit = ''ml''\<rparr> 10
     = (Inr (), \<lparr>name = ''water'', capacity = 200, level = 200, unit = ''ml''\<rparr>)"
  using fill_spec [where amount = 0 and c = "\<lparr>name = ''coffee'', capacity = 100, level = 100, unit = ''g''\<rparr>"]
        fill_spec [where amount = 20 and c = "\<lparr>name = ''water'', capacity = 200, level = 190, unit = ''ml''\<rparr>"]
        fill_spec [where amount = 10 and c = "\<lparr>name = ''water'', capacity = 200, level = 190, unit = ''ml''\<rparr>"]
  by simp

text \<open>
  C10. \<open>use\<close> never checks the sign of its argument: on a container whose level is not
  negative, an amount that is zero or negative passes the guard and the level becomes
  \<open>level - amount\<close>, which is no smaller than before and larger for a negative amount.
  On a container within its bounds, an amount below \<open>level - capacity\<close> leaves the level
  strictly above the capacity.
\<close>

theorem use_unguarded:
  "(0 \<le> level c \<and> amount \<le> 0 \<longrightarrow>
      use c amount = (Inr (), c\<lparr>level := level c - amount\<rparr>)
      \<and> level c \<le> level (snd (use c amount))
      \<and> (amount < 0 \<longrightarrow> level c < level (snd (use c amount))))
   \<and> (0 \<le> level c \<and> level c \<le> capacity c \<and> amount < level c - capacity c \<longrightarrow>
      fst (use c amount) = Inr () \<and> capacity c < level (snd (use c amount)))"
  by (auto simp add: use_def)

theorem use_unguarded_witness:
  "use \<lparr>name = ''water'', capacity = 200, level = 200, unit = ''ml''\<rparr> (- 1)
     = (Inr (), \<lparr>name = ''water'', capacity = 200, level = 201, unit = ''ml''\<rparr>)
   \<and> (200::int) < level (snd (use \<lparr>name = ''water'', capacity = 200, level = 200, unit = ''ml''\<rparr> (- 1)))"
  using use_unguarded [where c = "\<lparr>name = ''water'', capacity = 200, level = 200, unit = ''ml''\<rparr>" and amount = "- 1"]
  by simp

subsection \<open>Machine\<close>

lemmas text_defs = friendly_name_def title_def replace_char_def to_upper_def to_lower_def
  is_cased_def lower_letters_def upper_letters_def

lemma RECIPES_table:
  "RECIPES k = Some r \<longleftrightarrow>
     (k, r) \<in> {(''espresso'', \<lparr>water_ml = 24, coffee_g = 8\<rparr>),
               (''double_espresso'', \<lparr>water_ml = 48, coffee_g = 16\<rparr>),
               (''americano'', \<lparr>water_ml = 148, coffee_g = 16\<rparr>),
               (''ristretto'', \<lparr>water_ml = 16, coffee_g = 8\<rparr>)}"
  by (auto simp add: RECIPES_def split: if_splits)

lemma RECIPES_positive: "RECIPES k = Some r \<Longrightarrow> 0 < water_ml r \<and> 0 < coffee_g r"
  by (auto simp add: RECIPES_table)

lemma brew_enough:
  assumes "RECIPES k = Some r"
    and "water_ml r \<le> level (water_container m)"
    and "coffee_g r \<le> level (coffee_container m)"
  shows "brew m k =
     (Inr r,
      m\<lparr>water_container := (water_container m)\<lparr>level := level (water_container m) - water_ml r\<rparr>,
        coffee_container := (coffee_container m)\<lparr>level := level (coffee_container m) - coffee_g r\<rparr>,
        last_message := Some (friendly_name k @ '' is ready!'')\<rparr>)"
  using assms by (simp add: brew_def use_def)

lemma brew_espresso_default:
  "brew (default_machine 200 100) ''espresso'' =
     (Inr \<lparr>water_ml = 24, coffee_g = 8\<rparr>,
      \<lparr>water_container = \<lparr>name = ''water'', capacity = 200, level = 176, unit = ''ml''\<rparr>,
       coffee_container = \<lparr>name = ''coffee'', capacity = 100, level = 92, unit = ''g''\<rparr>,
       last_message = Some ''Espresso is ready!''\<rparr>)"
  by (simp add: brew_def use_def default_machine_def RECIPES_def text_defs)

text \<open>
  C2. The recipe table is espresso 24/8, double_espresso 48/16, americano 148/16 and
  ristretto 16/8. For every recipe of the table and every machine whose two levels cover
  the recipe, \<open>brew\<close> returns the recipe's two amounts, the water level has gone down by
  exactly \<open>water_ml\<close> and the coffee level by exactly \<open>coffee_g\<close>. \<open>default_machine\<close>
  starts both containers full, and \<open>default_machine 200 100\<close> brewing an espresso returns
  24 and 8 and is left with 176 of water and 92 of coffee.
\<close>

theorem brew_exact:
  "(RECIPES k = Some r \<longleftrightarrow>
      (k, r) \<in> {(''espresso'', \<lparr>water_ml = 24, coffee_g = 8\<rparr>),
                (''double_espresso'', \<lparr>water_ml = 48, coffee_g = 16\<rparr>),
                (''americano'', \<lparr>water_ml = 148, coffee_g = 16\<rparr>),
                (''ristretto'', \<lparr>water_ml = 16, coffee_g = 8\<rparr>)})
   \<and> (RECIPES k = Some r \<and> water_ml r \<le> level (water_container m)
        \<and> coffee_g r \<le> level (coffee_container m) \<longrightarrow>
        fst (brew m k) = Inr r
        \<and> level (water_container (snd (brew m k))) = level (water_container m) - water_ml r
        \<and> level (coffee_container (snd (brew m k))) = level (coffee_container m) - coffee_g r)
   \<and> level (water_container (default_machine W C)) = W
   \<and> capacity (water_container (default_machine W C)) = W
   \<and> level (coffee_container (default_machine W C)) = C
   \<and> capacity (coffee_container (default_machine W C)) = C
   \<and> fst (brew (default_machine 200 100) ''espresso'') = Inr \<lparr>water_ml = 24, coffee_g = 8\<rparr>
   \<and> level (water_container (snd (brew (default_machine 200 100) ''espresso''))) = 176
   \<and> level (coffee_container (snd (brew (default_machine 200 100) ''espresso''))) = 92"
proof -
  have table: "RECIPES k = Some r \<longleftrightarrow>
      (k, r) \<in> {(''espresso'', \<lparr>water_ml = 24, coffee_g = 8\<rparr>),
                (''double_espresso'', \<lparr>water_ml = 48, coffee_g = 16\<rparr>),
                (''americano'', \<lparr>water_ml = 148, coffee_g = 16\<rparr>),
                (''ristretto'', \<lparr>water_ml = 16, coffee_g = 8\<rparr>)}"
    by (rule RECIPES_table)
  have general: "RECIPES k = Some r \<and> water_ml r \<le> level (water_container m)
        \<and> coffee_g r \<le> level (coffee_container m) \<longrightarrow>
        fst (brew m k) = Inr r
        \<and> level (water_container (snd (brew m k))) = level (water_container m) - water_ml r
        \<and> level (coffee_container (snd (brew m k))) = level (coffee_container m) - coffee_g r"
    by (simp add: brew_enough)
  have full: "level (water_container (default_machine W C)) = W
      \<and> capacity (water_container (default_machine W C)) = W
      \<and> level (coffee_container (default_machine W C)) = C
      \<and> capacity (coffee_container (default_machine W C)) = C"
    by (simp add: default_machine_def)
  have scenario: "fst (brew (default_machine 200 100) ''espresso'') = Inr \<lparr>water_ml = 24, coffee_g = 8\<rparr>
     \<and> level (water_container (snd (brew (default_machine 200 100) ''espresso''))) = 176
     \<and> level (coffee_container (snd (brew (default_machine 200 100) ''espresso''))) = 92"
    by (simp add: brew_espresso_default)
  from table general full scenario show ?thesis by blast
qed

theorem brew_exact_witness:
  "RECIPES ''americano'' = Some \<lparr>water_ml = 148, coffee_g = 16\<rparr>
   \<and> fst (brew (default_machine 200 100) ''americano'') = Inr \<lparr>water_ml = 148, coffee_g = 16\<rparr>
   \<and> level (water_container (snd (brew (default_machine 200 100) ''americano''))) = 52
   \<and> level (coffee_container (snd (brew (default_machine 200 100) ''americano''))) = 84"
  using brew_exact [where k = "''americano''" and r = "\<lparr>water_ml = 148, coffee_g = 16\<rparr>"
      and m = "default_machine 200 100" and W = 200 and C = 100]
  by (simp add: default_machine_def)

text \<open>
  C1. The claim asks that a brew failing on the coffee container leaves the water level
  as it was. The code does not: on \<open>default_machine 200 10\<close>, a first espresso leaves 176
  of water and 2 of coffee; the second espresso finds water enough, subtracts 24, then
  raises \<open>ContainerEmptyError\<close> for the coffee (8 required, 2 available), and the water
  level stays at 152.
\<close>

theorem brew_coffee_failure_keeps_water_debit:
  "run (default_machine 200 10) [Brew ''espresso''] =
     \<lparr>water_container = \<lparr>name = ''water'', capacity = 200, level = 176, unit = ''ml''\<rparr>,
      coffee_container = \<lparr>name = ''coffee'', capacity = 10, level = 2, unit = ''g''\<rparr>,
      last_message = Some ''Espresso is ready!''\<rparr>
   \<and> brew (run (default_machine 200 10) [Brew ''espresso'']) ''espresso'' =
     (Inl (ContainerEmptyError ''coffee'' 8 2),
      \<lparr>water_container = \<lparr>name = ''water'', capacity = 200, level = 152, unit = ''ml''\<rparr>,
       coffee_container = \<lparr>name = ''coffee'', capacity = 10, level = 2, unit = ''g''\<rparr>,
       last_message = Some ''Espresso is ready!''\<rparr>)"
  by (simp add: brew_def use_def default_machine_def RECIPES_def text_defs)

text \<open>
  Through the service the same second call raises before \<^verbatim>\<open>_persist\<close>: the machine in
  memory holds 152 of water while the saved snapshot still says 176.
\<close>

lemma service_brew_failure_not_persisted:
  "(case service_brew
           \<lparr>svc_storage = JSONStateStorage \<lparr>parent = ''/tmp'', stem = ''state'', suffix = ''.json''\<rparr>,
            svc_settings = \<lparr>water_capacity_ml = 200, coffee_capacity_g = 10,
               storage_path = \<lparr>parent = ''/tmp'', stem = ''state'', suffix = ''.json''\<rparr>,
               storage_backend = ''json''\<rparr>,
            svc_machine = default_machine 200 10\<rparr>
           ''espresso'' \<lparr>files = Map.empty, databases = Map.empty\<rparr> of
      (r1, svc1, w1) \<Rightarrow>
        (case service_brew svc1 ''espresso'' w1 of
           (r2, svc2, w2) \<Rightarrow>
             r2 = Inl (ContainerEmptyError ''coffee'' 8 2)
             \<and> level (water_container (svc_machine svc2)) = 152
             \<and> load_machine (svc_storage svc2) (svc_settings svc2) w2
                 = Inr \<lparr>water_container = \<lparr>name = ''water'', capacity = 200, level = 176, unit = ''ml''\<rparr>,
                        coffee_container = \<lparr>name = ''coffee'', capacity = 10, level = 2, unit = ''g''\<rparr>,
                        last_message = Some ''Espresso is ready!''\<rparr>))"
  by (simp add: service_brew_def persist_def brew_def use_def default_machine_def RECIPES_def
      text_defs to_dict_def container_to_dict_def status_def with_suffix_def json_dumps_def
      load_machine_def from_dict_def container_from_dict_def Let_def)

text \<open>
  The levels stay within their bounds: \<open>use\<close> with an amount that is not negative and
  \<open>fill\<close> keep \<open>0 \<le> level \<le> capacity\<close>, and the recipes' amounts are positive.
\<close>

lemma use_ok: "container_ok c \<Longrightarrow> 0 \<le> a \<Longrightarrow> container_ok (snd (use c a))"
  by (simp add: use_def container_ok_def)

lemma fill_ok: "container_ok c \<Longrightarrow> container_ok (snd (fill c a))"
  by (simp add: fill_def container_ok_def Let_def)

lemma brew_ok: "machine_ok m \<Longrightarrow> machine_ok (snd (brew m k))"
proof (cases "RECIPES k")
  case None
  assume "machine_ok m"
  with None show ?thesis by (simp add: brew_def)
next
  case (Some r)
  assume ok: "machine_ok m"
  from Some have pos: "0 \<le> water_ml r" "0 \<le> coffee_g r"
    using RECIPES_positive [of k r] by simp_all
  from ok pos have w: "container_ok (snd (use (water_container m) (water_ml r)))"
    and c: "container_ok (snd (use (coffee_container m) (coffee_g r)))"
    by (simp_all add: machine_ok_def use_ok)
  from ok w c Some show ?thesis
    by (auto simp add: brew_def machine_ok_def split: prod.splits sum.splits)
qed

lemma fill_water_ok: "machine_ok m \<Longrightarrow> machine_ok (snd (fill_water m a))"
  using fill_ok [of "water_container m" a]
  by (auto simp add: fill_water_def machine_ok_def split: prod.splits sum.splits)

lemma fill_coffee_ok: "machine_ok m \<Longrightarrow> machine_ok (snd (fill_coffee m a))"
  using fill_ok [of "coffee_container m" a]
  by (auto simp add: fill_coffee_def machine_ok_def split: prod.splits sum.splits)

lemma exec_ok: "machine_ok m \<Longrightarrow> machine_ok (exec m c)"
  by (cases c) (simp_all add: brew_ok fill_water_ok fill_coffee_ok status_def)

lemma run_ok: "machine_ok m \<Longrightarrow> machine_ok (run m cs)"
  by (induction cs arbitrary: m) (simp_all add: exec_ok)

lemma default_machine_ok: "0 \<le> W \<Longrightarrow> 0 \<le> C \<Longrightarrow> machine_ok (default_machine W C)"
  by (simp add: default_machine_def machine_ok_def container_ok_def)

text \<open>
  C4. For positive capacities \<open>W\<close> and \<open>C\<close>, after any sequence of \<open>brew\<close>,
  \<open>fill_water\<close>, \<open>fill_coffee\<close> and \<open>status\<close> calls on \<open>default_machine W C\<close>, with any
  arguments and whether each call returns or raises, both containers satisfy
  \<open>0 \<le> level \<le> capacity\<close>.
\<close>

theorem levels_within_bounds:
  assumes "0 < W" and "0 < C"
  shows "0 \<le> level (water_container (run (default_machine W C) cs))
    \<and> level (water_container (run (default_machine W C) cs))
        \<le> capacity (water_container (run (default_machine W C) cs))
    \<and> 0 \<le> level (coffee_container (run (default_machine W C) cs))
    \<and> level (coffee_container (run (default_machine W C) cs))
        \<le> capacity (coffee_container (run (default_machine W C) cs))"
proof -
  from assms have "machine_ok (default_machine W C)"
    by (simp add: default_machine_ok)
  then have "machine_ok (run (default_machine W C) cs)"
    by (rule run_ok)
  then show ?thesis
    by (simp add: machine_ok_def container_ok_def)
qed

theorem levels_within_bounds_witness:
  "run (default_machine 200 10)
     [Brew ''espresso'', Brew ''espresso'', Fill_water 500, Fill_coffee 8, Status, Brew ''latte'', Fill_water 0]
   = \<lparr>water_container = \<lparr>name = ''water'', capacity = 200, level = 152, unit = ''ml''\<rparr>,
      coffee_container = \<lparr>name = ''coffee'', capacity = 10, level = 10, unit = ''g''\<rparr>,
      last_message = Some ''Added 8 g of coffee.''\<rparr>
   \<and> (0::int) \<le> 152 \<and> (152::int) \<le> 200 \<and> (0::int) \<le> 10 \<and> (10::int) \<le> 10"
  using levels_within_bounds [where W = 200 and C = 10
      and cs = "[Brew ''espresso'', Brew ''espresso'', Fill_water 500, Fill_coffee 8, Status, Brew ''latte'', Fill_water 0]"]
  by (simp add: brew_def use_def fill_def fill_water_def fill_coffee_def status_def
      default_machine_def RECIPES_def text_defs str_int_def str_nat.simps digit_char_def)

lemma brew_frame: "frame (snd (brew m k)) = frame m"
  by (simp add: brew_def use_def frame_def split: option.splits)

lemma fill_water_frame: "frame (snd (fill_water m a)) = frame m"
  by (simp add: fill_water_def fill_def Let_def frame_def)

lemma fill_coffee_frame: "frame (snd (fill_coffee m a)) = frame m"
  by (simp add: fill_coffee_def fill_def Let_def frame_def)

lemma exec_frame: "frame (exec m c) = frame m"
  by (cases c) (simp_all add: brew_frame fill_water_frame fill_coffee_frame status_def)

lemma run_frame: "frame (run m cs) = frame m"
  by (induction cs arbitrary: m) (simp_all add: exec_frame)

text \<open>
  C9. \<open>status\<close> leaves the machine as it is. No operation, returning or raising, changes
  the name, the capacity or the unit of either container, and so no sequence of them
  does: what is left to change is the two levels and \<open>last_message\<close>.
\<close>

theorem operations_frame:
  "snd (status m) = m
   \<and> frame (snd (brew m k)) = frame m
   \<and> frame (snd (fill_water m a)) = frame m
   \<and> frame (snd (fill_coffee m a)) = frame m
   \<and> frame (run m cs) = frame m"
  by (simp add: status_def brew_frame fill_water_frame fill_coffee_frame run_frame)

theorem operations_frame_witness:
  "frame (run (default_machine 200 10)
       [Brew ''espresso'', Brew ''espresso'', Fill_water 500, Fill_coffee 8, Status])
   = ((''water'', 200, ''ml''), (''coffee'', 10, ''g''))"
  using operations_frame [where m = "default_machine 200 10"
      and cs = "[Brew ''espresso'', Brew ''espresso'', Fill_water 500, Fill_coffee 8, Status]"]
  by (simp add: frame_def default_machine_def)

subsection \<open>Unknown recipes and the transport\<close>

lemma brew_unknown:
  "RECIPES k = None \<Longrightarrow>
     brew m k = (Inl (ValueError (''Unknown recipe '' @ [CHR 0x27] @ k @ [CHR 0x27])), m)"
  by (simp add: brew_def)

lemma brew_known_no_ValueError:
  "RECIPES k = Some r \<Longrightarrow> fst (brew m k) \<noteq> Inl (ValueError msg)"
  by (auto simp add: brew_def use_def split: if_splits)

lemma route_recipe_known: "RECIPES (route_recipe route) \<noteq> None"
  by (cases route) (simp_all add: RECIPES_def)

text \<open>
  C3, as the claim states it, fails: the exception for an unknown recipe is the built-in
  \<open>ValueError\<close>, which is no \<open>CoffeeMachineError\<close>, and the transport renders it with
  the handler for unexpected exceptions: status 500 and the generic message.
\<close>

theorem unknown_recipe_counterexample:
  "fst (brew (default_machine 200 100) ''latte'')
     = Inl (ValueError (''Unknown recipe '' @ [CHR 0x27] @ ''latte'' @ [CHR 0x27]))
   \<and> \<not> is_CoffeeMachineError (ValueError (''Unknown recipe '' @ [CHR 0x27] @ ''latte'' @ [CHR 0x27]))
   \<and> render_exception (ValueError (''Unknown recipe '' @ [CHR 0x27] @ ''latte'' @ [CHR 0x27]))
     = \<lparr>status_code = 500,
        content = [(''message'', ''Unexpected error occurred''),
                   (''details'', ''Unknown recipe '' @ [CHR 0x27] @ ''latte'' @ [CHR 0x27])]\<rparr>"
  by (simp add: brew_def RECIPES_def render_exception_def handle_unexpected_error_def)

text \<open>
  C3, amended. \<open>brew\<close> raises a \<open>ValueError\<close> exactly when the name is absent from the
  recipe table; its message is \<^verbatim>\<open>Unknown recipe '<name>'\<close> and the machine is as it
  was. The service lets it through unchanged and persists nothing. A \<open>ValueError\<close> is no
  \<open>CoffeeMachineError\<close>: the transport renders it as status 500 with the message
  \<^verbatim>\<open>Unexpected error occurred\<close> and the exception's text under \<^verbatim>\<open>details\<close>. The
  four brewing routes pass only names of the table.
\<close>

theorem unknown_recipe:
  "((\<exists>msg. fst (brew m k) = Inl (ValueError msg)) \<longleftrightarrow> RECIPES k = None)
   \<and> (RECIPES k = None \<longrightarrow>
        brew m k = (Inl (ValueError (''Unknown recipe '' @ [CHR 0x27] @ k @ [CHR 0x27])), m)
        \<and> service_brew svc k w
            = (Inl (ValueError (''Unknown recipe '' @ [CHR 0x27] @ k @ [CHR 0x27])), svc, w))
   \<and> \<not> is_CoffeeMachineError (ValueError msg')
   \<and> render_exception (ValueError msg')
       = \<lparr>status_code = 500,
          content = [(''message'', ''Unexpected error occurred''), (''details'', msg')]\<rparr>
   \<and> RECIPES (route_recipe route) \<noteq> None"
proof -
  have iff: "(\<exists>msg. fst (brew m k) = Inl (ValueError msg)) \<longleftrightarrow> RECIPES k = None"
  proof (cases "RECIPES k")
    case None
    then show ?thesis by (simp add: brew_unknown)
  next
    case (Some r)
    then show ?thesis by (simp add: brew_known_no_ValueError)
  qed
  have raised: "RECIPES k = None \<longrightarrow>
        brew m k = (Inl (ValueError (''Unknown recipe '' @ [CHR 0x27] @ k @ [CHR 0x27])), m)
        \<and> service_brew svc k w
            = (Inl (ValueError (''Unknown recipe '' @ [CHR 0x27] @ k @ [CHR 0x27])), svc, w)"
    by (simp add: brew_unknown service_brew_def)
  have rendered: "\<not> is_CoffeeMachineError (ValueError msg')
   \<and> render_exception (ValueError msg')
       = \<lparr>status_code = 500,
          content = [(''message'', ''Unexpected error occurred''), (''details'', msg')]\<rparr>"
    by (simp add: render_exception_def handle_unexpected_error_def)
  from iff raised rendered route_recipe_known [of route] show ?thesis by blast
qed

theorem unknown_recipe_witness:
  "RECIPES ''latte'' = None
   \<and> brew (default_machine 200 100) ''latte''
       = (Inl (ValueError (''Unknown recipe '' @ [CHR 0x27] @ ''latte'' @ [CHR 0x27])),
          default_machine 200 100)"
  using unknown_recipe [where k = "''latte''" and m = "default_machine 200 100"]
  by (simp add: RECIPES_def)

subsection \<open>Persistence\<close>

lemma container_round_trip: "container_from_dict (container_to_dict c) = Inr c"
  by (simp add: container_from_dict_def container_to_dict_def)

lemma get_last_message_to_dict: "get_last_message (to_dict m) = Inr (last_message m)"
  by (cases "last_message m") (simp_all add: to_dict_def)

lemma machine_round_trip: "from_dict (to_dict m) = Inr m"
proof -
  have w: "subscript (to_dict m) ''water'' = Inr (container_to_dict (water_container m))"
    by (simp add: to_dict_def)
  have c: "subscript (to_dict m) ''coffee'' = Inr (container_to_dict (coffee_container m))"
    by (simp add: to_dict_def)
  show ?thesis
    by (simp add: from_dict_def w c container_round_trip get_last_message_to_dict)
qed

lemma json_round_trip: "save_then_fresh_load ''json'' p data w = Inr (Some data)"
  by (simp add: save_then_fresh_load_def build_storage_def to_lower_def upper_letters_def lower_letters_def new_JSONStateStorage_def
      Let_def json_dumps_def)

lemma sqlite_round_trip: "save_then_fresh_load ''sqlite'' p data w = Inr (Some data)"
  by (simp add: save_then_fresh_load_def build_storage_def to_lower_def upper_letters_def lower_letters_def new_SQLiteStateStorage_def
      init_db_def Let_def json_dumps_def split: option.splits)

lemma memory_fresh: "save_then_fresh_load ''memory'' p data w = Inr None"
  by (simp add: save_then_fresh_load_def build_storage_def to_lower_def upper_letters_def lower_letters_def new_MemoryStateStorage_def
      Let_def json_dumps_def)

lemma memory_same: "save_then_same_load ''memory'' p data w = Inr (Some data)"
  by (simp add: save_then_same_load_def build_storage_def to_lower_def upper_letters_def lower_letters_def new_MemoryStateStorage_def
      Let_def json_dumps_def)

text \<open>
  C7, as the claim states it, fails for the in-memory backend: a storage built anew
  holds no state, whatever another instance saved.
\<close>

theorem memory_fresh_load_counterexample:
  "save_then_fresh_load ''memory'' \<lparr>parent = ''/tmp'', stem = ''state'', suffix = ''.json''\<rparr>
     (to_dict (default_machine 200 100)) \<lparr>files = Map.empty, databases = Map.empty\<rparr>
   = Inr None"
  by (simp add: save_then_fresh_load_def build_storage_def to_lower_def upper_letters_def lower_letters_def new_MemoryStateStorage_def
      Let_def json_dumps_def)

text \<open>
  C7, amended. For the JSON file backend and the SQLite backend, \<open>save\<close> followed by
  \<open>load\<close> on a storage built anew over the same path yields the saved snapshot, and
  \<open>from_dict\<close> of it is the machine that was saved. For the in-memory backend, \<open>load\<close>
  on the instance that saved yields the snapshot, and an instance built anew yields
  none. For every machine \<open>m\<close>, \<open>from_dict (to_dict m)\<close> is \<open>m\<close>: the fields of both
  containers and \<open>last_message\<close>.
\<close>

theorem storage_round_trip:
  "(backend \<in> {''json'', ''sqlite''} \<longrightarrow> save_then_fresh_load backend p data w = Inr (Some data))
   \<and> save_then_same_load ''memory'' p data w = Inr (Some data)
   \<and> save_then_fresh_load ''memory'' p data w = Inr None
   \<and> from_dict (to_dict m) = Inr m
   \<and> (backend \<in> {''json'', ''sqlite''} \<longrightarrow>
        (case save_then_fresh_load backend p (to_dict m) w of
           Inr (Some loaded) \<Rightarrow> from_dict loaded = Inr m
         | _ \<Rightarrow> False))"
  using json_round_trip [of p] sqlite_round_trip [of p]
  by (auto simp add: memory_same memory_fresh machine_round_trip)

theorem storage_round_trip_witness:
  "save_then_fresh_load ''json'' \<lparr>parent = ''/tmp'', stem = ''state'', suffix = ''.json''\<rparr>
     (to_dict (default_machine 200 100)) \<lparr>files = Map.empty, databases = Map.empty\<rparr>
   = Inr (Some (to_dict (default_machine 200 100)))
   \<and> save_then_fresh_load ''sqlite'' \<lparr>parent = ''/tmp'', stem = ''state'', suffix = ''.db''\<rparr>
     (to_dict (default_machine 200 100)) \<lparr>files = Map.empty, databases = Map.empty\<rparr>
   = Inr (Some (to_dict (default_machine 200 100)))"
  using storage_round_trip [where backend = "''json''"
      and p = "\<lparr>parent = ''/tmp'', stem = ''state'', suffix = ''.json''\<rparr>"
      and data = "to_dict (default_machine 200 100)"
      and w = "\<lparr>files = Map.empty, databases = Map.empty\<rparr>"]
    storage_round_trip [where backend = "''sqlite''"
      and p = "\<lparr>parent = ''/tmp'', stem = ''state'', suffix = ''.db''\<rparr>"
      and data = "to_dict (default_machine 200 100)"
      and w = "\<lparr>files = Map.empty, databases = Map.empty\<rparr>"]
  by simp

lemma brew_error_kinds:
  "fst (brew m k) = Inl e \<Longrightarrow> is_CoffeeMachineError e \<or> (\<exists>msg. e = ValueError msg)"
  by (auto simp add: brew_def use_def split: option.splits if_splits)

lemma fill_error_kinds: "fst (fill c a) = Inl e \<Longrightarrow> is_CoffeeMachineError e"
  by (auto simp add: fill_def Let_def split: if_splits)




end
